theory Spec2Isabelle
  imports Complex_Main "HOL-Library.AList"
begin

section \<open>Time and range model\<close>

text \<open>
  Two kinds of time appear. The index of one sample table is a \<^verbatim>\<open>DatetimeIndex\<close>: all its
  entries have one time zone and one resolution, so they are instants on one scale, an
  integer number of microseconds (\<open>timestamp\<close>, with \<open>timedelta\<close> for their differences). The
  times held by a \<^verbatim>\<open>SpatioTemporalRange\<close> are Python objects of either of two types, because
  the interpolation builds \<^verbatim>\<open>datetime\<close> objects and copies \<^verbatim>\<open>pd.Timestamp\<close> objects from the
  rows; they are modelled by \<open>pytime\<close> below, with the errors their operations raise.
  Functions keep their Python names, without the leading underscore of the private ones.
\<close>

type_synonym timestamp = int
type_synonym timedelta = int
type_synonym point = "rat \<times> rat"

datatype error =
  ValueError | TypeError | ZeroDivisionError | IndexError | OverflowError | AttributeError

text \<open>
  A \<^verbatim>\<open>datetime\<close> has a time zone or none and its wall-clock reading in microseconds; a
  \<^verbatim>\<open>pd.Timestamp\<close> has a time zone or none and its wall-clock reading in nanoseconds. A time
  zone is a fixed offset from UTC, in microseconds (zones whose offset changes over the year
  are not modelled). A value without a time zone is naive, one with a time zone is aware.
\<close>

datatype pytime =
    Datetime "int option" int
  | Timestamp "int option" int

fun tzinfo :: "pytime \<Rightarrow> int option" where
  "tzinfo (Datetime tz us) = tz"
| "tzinfo (Timestamp tz ns) = tz"

fun wall_ns :: "pytime \<Rightarrow> int" where
  "wall_ns (Datetime tz us) = 1000 * us"
| "wall_ns (Timestamp tz ns) = ns"

definition aware :: "pytime \<Rightarrow> bool" where
  "aware x = (tzinfo x \<noteq> None)"

definition value_ns :: "pytime \<Rightarrow> int" where
  "value_ns x = (case tzinfo x of None \<Rightarrow> wall_ns x | Some off \<Rightarrow> wall_ns x - 1000 * off)"

text \<open>
  Python's \<^verbatim>\<open>==\<close>, \<^verbatim>\<open>>\<close>, \<^verbatim>\<open><=\<close>, \<^verbatim>\<open><\<close> and \<^verbatim>\<open>-\<close> on such values. Two aware values are
  compared and subtracted as instants, two naive ones by their readings. Between a naive and
  an aware value \<^verbatim>\<open>==\<close> is false and the others raise \<^verbatim>\<open>TypeError\<close>. A difference is a
  number of nanoseconds.
\<close>

definition time_eq :: "pytime \<Rightarrow> pytime \<Rightarrow> bool" where
  "time_eq a b = (aware a = aware b \<and> value_ns a = value_ns b)"

definition time_gt :: "pytime \<Rightarrow> pytime \<Rightarrow> error + bool" where
  "time_gt a b = (if aware a = aware b then Inr (value_ns a > value_ns b) else Inl TypeError)"

definition time_le :: "pytime \<Rightarrow> pytime \<Rightarrow> error + bool" where
  "time_le a b = (if aware a = aware b then Inr (value_ns a \<le> value_ns b) else Inl TypeError)"

definition time_lt :: "pytime \<Rightarrow> pytime \<Rightarrow> error + bool" where
  "time_lt a b = (if aware a = aware b then Inr (value_ns a < value_ns b) else Inl TypeError)"

definition time_sub :: "pytime \<Rightarrow> pytime \<Rightarrow> error + int" where
  "time_sub a b = (if aware a = aware b then Inr (value_ns a - value_ns b) else Inl TypeError)"

text \<open>
  \<^verbatim>\<open>Timestamp.tz_localize(tz)\<close> gives a naive value the zone, takes the zone from an aware
  value when \<open>tz\<close> is \<^verbatim>\<open>None\<close> (the reading is kept), and raises \<^verbatim>\<open>TypeError\<close> on an aware
  value otherwise. \<^verbatim>\<open>Timestamp.to_pydatetime()\<close> drops the nanoseconds below the microsecond.
  Both are methods of \<^verbatim>\<open>pd.Timestamp\<close> only, and the source calls them on nothing else.
\<close>

fun tz_localize :: "pytime \<Rightarrow> int option \<Rightarrow> error + pytime" where
  "tz_localize (Timestamp None ns) tz = Inr (Timestamp tz ns)"
| "tz_localize (Timestamp (Some off) ns) None = Inr (Timestamp None ns)"
| "tz_localize (Timestamp (Some off) ns) (Some off') = Inl TypeError"
| "tz_localize (Datetime tz us) tz' = Inl AttributeError"

fun to_pydatetime :: "pytime \<Rightarrow> pytime" where
  "to_pydatetime (Timestamp tz ns) = Datetime tz (ns div 1000)"
| "to_pydatetime (Datetime tz us) = Datetime tz us"

text \<open>
  \<^verbatim>\<open>SpatioTemporalRange(pt_0, pt_n, t_0, t_n)\<close>, \<^verbatim>\<open>TemporalRange(t_0, t_n)\<close> and
  \<^verbatim>\<open>TemporalRangeWithTrajId(t_0, t_n, traj_id)\<close> of \<^verbatim>\<open>time_range_utils\<close>.
\<close>

record SpatioTemporalRange =
  pt_0 :: point
  pt_n :: point
  t_0 :: pytime
  t_n :: pytime

datatype TemporalRange = TemporalRange timestamp timestamp

datatype TemporalRangeWithTrajId = TemporalRangeWithTrajId timestamp timestamp string

section \<open>overlay.py: tolerance-aware time equality\<close>

text \<open>
  The first equation is the branch \<^verbatim>\<open>type(t2) == pd.Timestamp\<close>, the second the other one.
  \<^verbatim>\<open>timedelta(milliseconds=10)\<close> is 10000000 nanoseconds.
\<close>

fun is_equal :: "pytime \<Rightarrow> pytime \<Rightarrow> error + bool" where
  "is_equal t1 (Timestamp tz ns) =
     (case tz_localize (Timestamp tz ns) (tzinfo t1) of
        Inl e \<Rightarrow> Inl e
      | Inr t2 \<Rightarrow>
         (case time_sub t1 (to_pydatetime t2) of
            Inl e \<Rightarrow> Inl e
          | Inr d \<Rightarrow> let td = \<bar>d\<bar> in Inr (td < 10000000)))"
| "is_equal t1 (Datetime tz us) =
     (case time_sub t1 (Datetime tz us) of
        Inl e \<Rightarrow> Inl e
      | Inr d \<Rightarrow> let td = \<bar>d\<bar> in Inr (td < 10000000))"

section \<open>overlay.py: spatiotemporal interpolation\<close>

text \<open>
  Coordinates are double-precision numbers, each a rational. \<open>round_to_double\<close> rounds a
  rational to the nearest double, ties to even (overflow to infinity is not modelled);
  \<open>fadd\<close> is the addition of two doubles.
\<close>

function bit_length :: "int \<Rightarrow> int" where
  "bit_length n = (if n \<le> 0 then 0 else 1 + bit_length (n div 2))"
  by pat_completeness auto
termination
  by (relation "measure nat") auto

declare bit_length.simps [simp del]

definition floor_log2 :: "rat \<Rightarrow> int" where
  "floor_log2 x =
     (if x \<ge> 1 then bit_length \<lfloor>x\<rfloor> - 1
      else - bit_length (\<lceil>1 / x\<rceil> - 1))"

definition pow2 :: "int \<Rightarrow> rat" where
  "pow2 e = (if e \<ge> 0 then 2 ^ nat e else 1 / 2 ^ nat (- e))"

definition round_half_even :: "rat \<Rightarrow> int" where
  "round_half_even x =
     (let q = \<lfloor>x\<rfloor>; r = x - of_int q
      in if r > 1 / 2 \<or> (r = 1 / 2 \<and> odd q) then q + 1 else q)"

definition round_to_double :: "rat \<Rightarrow> rat" where
  "round_to_double x =
     (if x = 0 then 0
      else let e = max (floor_log2 \<bar>x\<bar> - 52) (- 1074);
               m = round_half_even (\<bar>x\<bar> / pow2 e)
           in sgn x * of_int m * pow2 e)"

definition fadd :: "rat \<Rightarrow> rat \<Rightarrow> rat" where
  "fadd a b = round_to_double (a + b)"

text \<open>
  \<^verbatim>\<open>shapely.affinity.translate(pt, xoff, yoff)\<close> on a point adds the offsets to its
  coordinates; \<open>offset\<close> is the literal \<^verbatim>\<open>0.00000001\<close>.
\<close>

definition translate :: "point \<Rightarrow> rat \<Rightarrow> rat \<Rightarrow> point" where
  "translate p xoff yoff = (fadd (fst p) xoff, fadd (snd p) yoff)"

definition offset :: rat where
  "offset = round_to_double (1 / 100000000)"

text \<open>
  A row of the line frame: the sample times \<^verbatim>\<open>prev_t\<close> and \<^verbatim>\<open>t\<close> of the segment (the field
  for \<^verbatim>\<open>t\<close> is named \<open>row_t\<close>), the segment's line, seen through the two observations the
  function makes of it (\<^verbatim>\<open>line.length\<close> and \<^verbatim>\<open>line.project(pt)\<close>, both computed by the
  geometry library), and the intersection of the line with the polygon. Only the case
  \<^verbatim>\<open>LineString\<close> of the intersection matters to the function; a \<^verbatim>\<open>LineString\<close> carries its
  coordinate sequence.
\<close>

datatype geometry = LineString "point list" | OtherGeometry

record row =
  prev_t :: pytime
  row_t :: pytime
  line_length :: rat
  line_project :: "point \<Rightarrow> rat"
  spatial_intersection :: geometry

text \<open>
  The arithmetic \<^verbatim>\<open>t + (row['t'] - t) * line.project(pt) / length\<close>, rebuilt by
  \<^verbatim>\<open>datetime(year, ..., microsecond)\<close>, is carried out by the time types of the libraries on
  a floating-point factor; it either raises or gives the microseconds of a naive
  \<^verbatim>\<open>datetime\<close>. It is the parameter \<open>interpolate\<close>, applied to \<^verbatim>\<open>prev_t\<close>, \<^verbatim>\<open>t\<close>, the
  projected distance and the length. The guard compares two points with \<^verbatim>\<open>==\<close>, which is
  equality of their coordinates.
\<close>

definition get_spatiotemporal_ref ::
  "(pytime \<Rightarrow> pytime \<Rightarrow> rat \<Rightarrow> rat \<Rightarrow> error + int) \<Rightarrow> row
     \<Rightarrow> error + SpatioTemporalRange option" where
  "get_spatiotemporal_ref interpolate row =
     (case spatial_intersection row of
        LineString coords \<Rightarrow>
          (if coords = [] then Inl IndexError
           else
             let pt0 = hd coords;
                 ptn = last coords;
                 length = line_length row
             in (case interpolate (prev_t row) (row_t row) (line_project row pt0) length of
                   Inl e \<Rightarrow> Inl e
                 | Inr us0 \<Rightarrow>
                    (case interpolate (prev_t row) (row_t row) (line_project row ptn) length of
                       Inl e \<Rightarrow> Inl e
                     | Inr usn \<Rightarrow>
                        let (t0, tn) = (if ptn = translate pt0 offset offset
                                        then (prev_t row, row_t row)
                                        else (Datetime None us0, Datetime None usn))
                        in (case is_equal tn (row_t row) of
                              Inl e \<Rightarrow> Inl e
                            | Inr near_t \<Rightarrow>
                               let tn = (if near_t then row_t row else tn)
                               in (case is_equal t0 (prev_t row) of
                                     Inl e \<Rightarrow> Inl e
                                   | Inr near_prev_t \<Rightarrow>
                                      let t0 = (if near_prev_t then prev_t row else t0)
                                      in Inr (Some \<lparr>pt_0 = pt0, pt_n = ptn,
                                                        t_0 = t0, t_n = tn\<rparr>))))))
      | OtherGeometry \<Rightarrow> Inr None)"

section \<open>overlay.py: range dissolution\<close>

text \<open>
  The loop state is the pair \<open>(dissolved_ranges, new_range)\<close>; \<open>None\<close> is Python's
  \<^verbatim>\<open>None\<close>. The open range is a fresh object built from the fields of \<open>r\<close>, so extending
  it in place never touches an input range. The test of line 51 evaluates \<^verbatim>\<open>==\<close> first,
  \<^verbatim>\<open>>\<close> only when that is false and \<open>is_equal\<close> only when \<^verbatim>\<open>>\<close> is true; an error raised on
  the way ends the function.
\<close>

type_synonym dissolve_state =
  "SpatioTemporalRange option list \<times> SpatioTemporalRange option"

fun dissolve_step ::
  "dissolve_state \<Rightarrow> SpatioTemporalRange option \<Rightarrow> error + dissolve_state" where
  "dissolve_step (dissolved_ranges, new_range) None = Inr (dissolved_ranges, new_range)"
| "dissolve_step (dissolved_ranges, None) (Some r) =
     Inr (dissolved_ranges, Some \<lparr>pt_0 = pt_0 r, pt_n = pt_n r, t_0 = t_0 r, t_n = t_n r\<rparr>)"
| "dissolve_step (dissolved_ranges, Some nr) (Some r) =
     (if time_eq (t_n nr) (t_0 r)
      then Inr (dissolved_ranges, Some (nr\<lparr>t_n := t_n r, pt_n := pt_n r\<rparr>))
      else case time_gt (t_0 r) (t_n nr) of
             Inl e \<Rightarrow> Inl e
           | Inr later \<Rightarrow>
              (case (if later then is_equal (t_0 r) (t_n nr) else Inr False) of
                 Inl e \<Rightarrow> Inl e
               | Inr touching \<Rightarrow>
                  if touching
                  then Inr (dissolved_ranges, Some (nr\<lparr>t_n := t_n r, pt_n := pt_n r\<rparr>))
                  else Inr (dissolved_ranges @ [Some nr],
                            Some \<lparr>pt_0 = pt_0 r, pt_n = pt_n r, t_0 = t_0 r, t_n = t_n r\<rparr>)))"

fun dissolve_loop ::
  "dissolve_state \<Rightarrow> SpatioTemporalRange option list \<Rightarrow> error + dissolve_state" where
  "dissolve_loop s [] = Inr s"
| "dissolve_loop s (r # ranges) =
     (case dissolve_step s r of Inl e \<Rightarrow> Inl e | Inr s' \<Rightarrow> dissolve_loop s' ranges)"

definition dissolve_ranges ::
  "SpatioTemporalRange option list \<Rightarrow> error + SpatioTemporalRange option list" where
  "dissolve_ranges ranges =
     (if length ranges = 0 then Inl ValueError
      else case dissolve_loop ([], None) ranges of
             Inl e \<Rightarrow> Inl e
           | Inr (dissolved_ranges, new_range) \<Rightarrow> Inr (dissolved_ranges @ [new_range]))"

section \<open>Trajectories and their sample tables\<close>

text \<open>
  A sample table (a \<^verbatim>\<open>GeoDataFrame\<close>) has a time index, a geometry column and further named
  columns, kept in their order. Tables are objects: a trajectory holds a reference to its
  table, and the heap maps references to tables, so that two names for one table see each
  other's writes.
\<close>

datatype cell = TimeV timestamp | BoolV bool | IntV int | RatV rat | StrV string

record dataframe =
  index :: "timestamp list"
  geometry :: "point list"
  columns :: "(string \<times> cell list) list"

type_synonym addr = nat
type_synonym heap = "addr \<Rightarrow> dataframe"

record trajectory =
  traj_id :: string
  is_latlon :: bool
  df :: addr

type_synonym polygon = "point \<Rightarrow> bool"

text \<open>
  \<^verbatim>\<open>df[name] = values\<close> replaces the column of that name where it stands, or appends a new
  one; assigning a scalar fills the column with it.
\<close>

definition setitem :: "dataframe \<Rightarrow> string \<Rightarrow> cell list \<Rightarrow> dataframe" where
  "setitem d name vals = d\<lparr>columns := AList.update name vals (columns d)\<rparr>"

definition setitem_scalar :: "dataframe \<Rightarrow> string \<Rightarrow> cell \<Rightarrow> dataframe" where
  "setitem_scalar d name v = setitem d name (replicate (length (index d)) v)"

text \<open>\<^verbatim>\<open>df.iterrows()\<close>, each row read at its geometry column.\<close>

definition iterrows :: "dataframe \<Rightarrow> (timestamp \<times> point) list" where
  "iterrows d = zip (index d) (geometry d)"

section \<open>overlay.py: point-based time ranges\<close>

text \<open>
  \<^verbatim>\<open>Series.shift(1)\<close> (the first entry becomes missing), \<^verbatim>\<open>cumsum\<close>, and the aggregation
  \<^verbatim>\<open>groupby('segment').agg({'t': ['min', 'max'], 'intersects': ['min']})\<close>, one line per group
  key in increasing order.
\<close>

definition shift1 :: "'a list \<Rightarrow> 'a option list" where
  "shift1 xs = (if xs = [] then [] else None # map Some (butlast xs))"

fun cumsum :: "int \<Rightarrow> int list \<Rightarrow> int list" where
  "cumsum acc [] = []"
| "cumsum acc (x # xs) = (acc + x) # cumsum (acc + x) xs"

definition groupby_agg ::
  "int list \<Rightarrow> timestamp list \<Rightarrow> bool list \<Rightarrow> (int \<times> timestamp \<times> timestamp \<times> bool) list" where
  "groupby_agg segment ts flags =
     map (\<lambda>k. let rows = filter (\<lambda>(s, t, f). s = k) (zip segment (zip ts flags));
                  group_t = map (\<lambda>(s, t, f). t) rows;
                  group_f = map (\<lambda>(s, t, f). f) rows
              in (k, fold min group_t (hd group_t), fold max group_t (hd group_t),
                  list_all (\<lambda>f. f) group_f))
       (sort (remdups segment))"

text \<open>
  \<^verbatim>\<open>df = traj.df\<close> binds a second name to the trajectory's own table: the three column
  assignments that follow write to the heap at \<open>df traj\<close>. Only the later
  \<^verbatim>\<open>df = df.groupby(...)\<close> rebinds the name to a new table.
\<close>

definition determine_time_ranges_pointbased ::
  "heap \<Rightarrow> trajectory \<Rightarrow> polygon \<Rightarrow> heap \<times> TemporalRange list" where
  "determine_time_ranges_pointbased h traj polygon =
     (let a = df traj;
          h1 = h(a := setitem (h a) ''t'' (map TimeV (index (h a))));
          intersects = map polygon (geometry (h1 a));
          h2 = h1(a := setitem (h1 a) ''intersects'' (map BoolV intersects));
          segment = cumsum 0 (map (\<lambda>(p, c). if p \<noteq> Some c then 1 else 0)
                                (zip (shift1 intersects) intersects));
          h3 = h2(a := setitem (h2 a) ''segment'' (map IntV segment));
          grouped = groupby_agg segment (index (h3 a)) intersects
      in (h3, map (\<lambda>(k, t_min, t_max, intersects_min). TemporalRange t_min t_max)
                (filter (\<lambda>(k, t_min, t_max, intersects_min). intersects_min) grouped)))"

section \<open>overlay.py: intersection with a feature\<close>

text \<open>
  A feature is a dictionary or something else; in a dictionary, the geometry is absent when
  the key is missing or \<^verbatim>\<open>shape\<close> rejects it, the properties when the key is missing. The
  properties are a dictionary, listed in iteration order.
\<close>

datatype feature = NotADict | Dict "polygon option" "(string \<times> cell) list option"

fun get_geometry_and_properties_from_feature ::
  "feature \<Rightarrow> error + polygon \<times> (string \<times> cell) list" where
  "get_geometry_and_properties_from_feature NotADict = Inl TypeError"
| "get_geometry_and_properties_from_feature (Dict (Some geom) (Some properties)) =
     Inr (geom, properties)"
| "get_geometry_and_properties_from_feature (Dict _ _) = Inl TypeError"

definition intersecting :: "string \<Rightarrow> string" where
  "intersecting key = ''intersecting_'' @ key"

text \<open>The inner loop: \<^verbatim>\<open>clipping.df['intersecting_' + key] = value\<close> for every property.\<close>

definition stamp_properties :: "(string \<times> cell) list \<Rightarrow> heap \<Rightarrow> trajectory \<Rightarrow> heap" where
  "stamp_properties properties h clipping =
     foldl (\<lambda>h (key, val). h(df clipping := setitem_scalar (h (df clipping)) (intersecting key) val))
       h properties"

text \<open>
  \<^verbatim>\<open>clip\<close> rests on trajectory methods (\<^verbatim>\<open>to_linestring\<close>, \<^verbatim>\<open>copy\<close>,
  \<^verbatim>\<open>get_segment_between\<close>, the spatial index) that lie outside this module, so
  \<open>intersection\<close> takes it as a parameter: any function from the heap, the trajectory, the
  polygon and the mode to an error or the new heap and the list of clipped segments.
\<close>

definition intersection ::
  "(heap \<Rightarrow> trajectory \<Rightarrow> polygon \<Rightarrow> bool \<Rightarrow> error + heap \<times> trajectory list)
     \<Rightarrow> heap \<Rightarrow> trajectory \<Rightarrow> feature \<Rightarrow> bool \<Rightarrow> error + heap \<times> trajectory list" where
  "intersection clip h traj feature pointbased =
     (case get_geometry_and_properties_from_feature feature of
        Inl e \<Rightarrow> Inl e
      | Inr (geom, properties) \<Rightarrow>
          (case clip h traj geom pointbased of
             Inl e \<Rightarrow> Inl e
           | Inr (h1, clipped) \<Rightarrow>
               Inr (foldl (stamp_properties properties) h1 clipped, clipped)))"

section \<open>trajectory_stop_detector.py\<close>

text \<open>
  The loop state of \<^verbatim>\<open>_process_traj\<close>. The window is the pair of lists
  \<open>segment_geoms\<close>, \<open>segment_times\<close>. \<^verbatim>\<open>mrr_diagonal\<close> belongs to \<^verbatim>\<open>geometry_utils\<close> and is a
  parameter.
\<close>

record stop_state =
  detected_stops :: "TemporalRangeWithTrajId list"
  segment_geoms :: "point list"
  segment_times :: "timestamp list"
  is_stopped :: bool
  previously_stopped :: bool

text \<open>
  The inner \<^verbatim>\<open>while\<close> loop: \<^verbatim>\<open>pop(0)\<close> on both lists while more than two entries are held
  and the span reaches \<open>min_duration\<close>.
\<close>

function trim_window :: "timedelta \<Rightarrow> point list \<times> timestamp list \<Rightarrow> point list \<times> timestamp list" where
  "trim_window min_duration (geoms, tms) =
     (if length geoms > 2 \<and> last tms - hd tms \<ge> min_duration
      then trim_window min_duration (tl geoms, tl tms)
      else (geoms, tms))"
  by pat_completeness auto
termination
  by (relation "measure (\<lambda>(m, geoms, tms). length geoms)") auto
text \<open>The window after the append and, when not stopped, the trimming.\<close>

definition window_after_append ::
  "timedelta \<Rightarrow> stop_state \<Rightarrow> timestamp \<times> point \<Rightarrow> point list \<times> timestamp list" where
  "window_after_append min_duration s r =
     (let geoms = segment_geoms s @ [snd r];
          tms = segment_times s @ [fst r]
      in if \<not> is_stopped s then trim_window min_duration (geoms, tms) else (geoms, tms))"

text \<open>One iteration of the loop over the rows.\<close>

definition process_row ::
  "(point list \<Rightarrow> bool \<Rightarrow> rat) \<Rightarrow> trajectory \<Rightarrow> rat \<Rightarrow> timedelta
     \<Rightarrow> stop_state \<Rightarrow> timestamp \<times> point \<Rightarrow> stop_state" where
  "process_row mrr_diagonal traj max_diameter min_duration s r =
     (case window_after_append min_duration s r of
        (geoms, tms) \<Rightarrow>
          let stopped = (length geoms > 1 \<and> mrr_diagonal geoms (is_latlon traj) < max_diameter);
              segment_end = tms ! (length tms - 2);
              segment_begin = hd tms
          in if length geoms > 1 \<and> \<not> stopped \<and> previously_stopped s
                \<and> segment_end - segment_begin \<ge> min_duration
             then \<lparr>detected_stops = detected_stops s @
                       [TemporalRangeWithTrajId segment_begin segment_end (traj_id traj)],
                   segment_geoms = [], segment_times = [],
                   is_stopped = stopped, previously_stopped = stopped\<rparr>
             else \<lparr>detected_stops = detected_stops s,
                   segment_geoms = geoms, segment_times = tms,
                   is_stopped = stopped, previously_stopped = stopped\<rparr>)"

definition initial_state :: stop_state where
  "initial_state = \<lparr>detected_stops = [], segment_geoms = [], segment_times = [],
     is_stopped = False, previously_stopped = False\<rparr>"

text \<open>
  The test after the loop. \<^verbatim>\<open>segment_times[-1]\<close> on an empty window raises \<^verbatim>\<open>IndexError\<close>.
\<close>

definition final_stop :: "trajectory \<Rightarrow> timedelta \<Rightarrow> stop_state \<Rightarrow> error + TemporalRangeWithTrajId list" where
  "final_stop traj min_duration s =
     (if is_stopped s
      then (if segment_times s = [] then Inl IndexError
            else if last (segment_times s) - hd (segment_times s) \<ge> min_duration
            then Inr (detected_stops s @
                   [TemporalRangeWithTrajId (hd (segment_times s)) (last (segment_times s)) (traj_id traj)])
            else Inr (detected_stops s))
      else Inr (detected_stops s))"

definition process_traj ::
  "(point list \<Rightarrow> bool \<Rightarrow> rat) \<Rightarrow> heap \<Rightarrow> trajectory \<Rightarrow> rat \<Rightarrow> timedelta
     \<Rightarrow> error + TemporalRangeWithTrajId list" where
  "process_traj mrr_diagonal h traj max_diameter min_duration =
     final_stop traj min_duration
       (foldl (process_row mrr_diagonal traj max_diameter min_duration) initial_state
          (iterrows (h (df traj))))"

section \<open>Predicates and sample inputs used in the statements\<close>

text \<open>The non-absent entries of a sequence of optional ranges, in order.\<close>

fun present :: "'a option list \<Rightarrow> 'a list" where
  "present [] = []"
| "present (None # xs) = present xs"
| "present (Some x # xs) = x # present xs"


text \<open>The two window lists have one length, and a stopped state holds at least two samples.\<close>

definition window_ok :: "stop_state \<Rightarrow> bool" where
  "window_ok s = (length (segment_geoms s) = length (segment_times s)
                  \<and> (if is_stopped s then length (segment_times s) > 1 else True))"

text \<open>All properties written to one table, and what it means for a table to carry them.\<close>

definition stamp_frame :: "(string \<times> cell) list \<Rightarrow> dataframe \<Rightarrow> dataframe" where
  "stamp_frame properties d =
     foldl (\<lambda>d (key, val). setitem_scalar d (intersecting key) val) d properties"

definition stamped :: "(string \<times> cell) list \<Rightarrow> dataframe \<Rightarrow> bool" where
  "stamped properties d =
     (\<forall>(k, v) \<in> set properties.
        map_of (columns d) (intersecting k) = Some (replicate (length (index d)) v))"

text \<open>
  The interpolation arithmetic carried out without rounding error, cut to the microsecond: a
  value for the parameter \<open>interpolate\<close>.
\<close>

definition exact_interpolate :: "pytime \<Rightarrow> pytime \<Rightarrow> rat \<Rightarrow> rat \<Rightarrow> error + int" where
  "exact_interpolate t t' d len =
     (case time_sub t' t of
        Inl e \<Rightarrow> Inl e
      | Inr t_delta \<Rightarrow>
         if len = 0 then Inl ZeroDivisionError
         else Inr ((wall_ns t + \<lfloor>of_int t_delta * d / len\<rfloor>) div 1000))"

text \<open>
  A segment from \<open>(0, 0)\<close> at 0 s to \<open>(10, 0)\<close> at 10 s whose intersection with the polygon
  runs from \<open>x = 2\<close> to the double nearest to \<open>2.000000005\<close>. And the line the library builds
  for two equal consecutive points \<open>(4.5, 3.25)\<close> at 0 s and 10 s, wholly inside the polygon,
  for which the projection of either end point gives 4.50896 s.
\<close>

definition near_coincident_row :: row where
  "near_coincident_row =
     \<lparr>prev_t = Timestamp None 0, row_t = Timestamp None 10000000000,
      line_length = 10, line_project = fst,
      spatial_intersection = LineString [(2, 0), (4503599638629495 / 2251799813685248, 0)]\<rparr>"

definition zero_length_row :: row where
  "zero_length_row =
     \<lparr>prev_t = Timestamp None 0, row_t = Timestamp None 10000000000,
      line_length = 1 / 70000000, line_project = (\<lambda>p. 4508960 / 700000000000000),
      spatial_intersection =
        LineString [(9 / 2, 13 / 4),
                    (5066549592050807 / 1125899906842624, 3659174708497527 / 1125899906842624)]\<rparr>"

text \<open>A trajectory of four samples, a clipped segment of it, a square and a feature on it.\<close>

definition demo_traj :: trajectory where
  "demo_traj = \<lparr>traj_id = ''a'', is_latlon = False, df = 0\<rparr>"

definition demo_heap :: heap where
  "demo_heap = (\<lambda>a. \<lparr>index = [], geometry = [], columns = []\<rparr>)
     (0 := \<lparr>index = [0, 30000000, 60000000, 90000000],
            geometry = [(2, 0), (0, 0), (1 / 10, 0), (3, 0)],
            columns = [(''speed'', [RatV 0, RatV 2, RatV 1, RatV 3])]\<rparr>,
      1 := \<lparr>index = [30000000, 60000000],
            geometry = [(0, 0), (1 / 10, 0)],
            columns = [(''speed'', [RatV 2, RatV 1])]\<rparr>)"

definition demo_polygon :: polygon where
  "demo_polygon p = (0 \<le> fst p \<and> fst p \<le> 1 \<and> 0 \<le> snd p \<and> snd p \<le> 1)"

definition demo_clip ::
  "heap \<Rightarrow> trajectory \<Rightarrow> polygon \<Rightarrow> bool \<Rightarrow> error + heap \<times> trajectory list" where
  "demo_clip h traj geom pointbased =
     Inr (h, [\<lparr>traj_id = traj_id traj @ ''_0'', is_latlon = is_latlon traj, df = 1\<rparr>])"

definition demo_feature :: feature where
  "demo_feature = Dict (Some demo_polygon) (Some [(''name'', StrV ''park''), (''zone'', IntV 7)])"

text \<open>Three samples within a tenth of a unit of each other, one minute in all.\<close>

definition demo_frame :: dataframe where
  "demo_frame = \<lparr>index = [0, 30000000, 60000000],
                 geometry = [(0, 0), (1 / 10, 0), (0, 1 / 10)],
                 columns = [(''speed'', [RatV 0, RatV 1, RatV 1])]\<rparr>"

section \<open>Properties of the time comparison\<close>




section \<open>Properties of the interpolation\<close>

lemma is_equal_self:
  assumes "\<forall>off ns. x \<noteq> Timestamp (Some off) ns"
  shows "is_equal x x = Inr True"
proof (cases x)
  case (Datetime tz us)
  then show ?thesis by (simp add: time_sub_def)
next
  case (Timestamp tz ns)
  with assms have "tz = None" by (cases tz) auto
  moreover have "\<bar>ns - 1000 * (ns div 1000)\<bar> < 10000000"
  proof -
    have "ns - 1000 * (ns div 1000) = ns mod 1000"
      by (simp add: minus_mult_div_eq_mod)
    moreover have "0 \<le> ns mod 1000" "ns mod 1000 < 1000" by simp_all
    ultimately show ?thesis by linarith
  qed
  ultimately show ?thesis
    using Timestamp by (simp add: time_sub_def aware_def value_ns_def)
qed

text \<open>
  C3, as the code has it: when the last point of the intersection is the first one translated
  by \<open>(1e-8, 1e-8)\<close> in double precision, which is the shape the library gives to the line
  between two equal consecutive points, the interpolation arithmetic does not raise for
  either end point, and neither \<open>prev_t\<close> nor \<open>t\<close> is an aware \<^verbatim>\<open>pd.Timestamp\<close>, the range
  runs over the whole segment, from \<open>prev_t\<close> to \<open>t\<close>, whatever the projection gives.
\<close>

theorem get_spatiotemporal_ref_degenerate:
  assumes "spatial_intersection row = LineString coords"
    and "coords \<noteq> []"
    and "interpolate (prev_t row) (row_t row) (line_project row (hd coords)) (line_length row)
           = Inr us0"
    and "interpolate (prev_t row) (row_t row) (line_project row (last coords)) (line_length row)
           = Inr usn"
    and "last coords = translate (hd coords) offset offset"
    and "\<forall>off ns. prev_t row \<noteq> Timestamp (Some off) ns"
    and "\<forall>off ns. row_t row \<noteq> Timestamp (Some off) ns"
  shows "get_spatiotemporal_ref interpolate row =
           Inr (Some \<lparr>pt_0 = hd coords, pt_n = last coords, t_0 = prev_t row, t_n = row_t row\<rparr>)"
proof -
  from assms(6) have p: "is_equal (prev_t row) (prev_t row) = Inr True"
    by (rule is_equal_self)
  from assms(7) have t: "is_equal (row_t row) (row_t row) = Inr True"
    by (rule is_equal_self)
  from assms(1-5) show ?thesis
    by (simp add: get_spatiotemporal_ref_def Let_def p t)
qed

theorem get_spatiotemporal_ref_degenerate_witness:
  "exact_interpolate (prev_t zero_length_row) (row_t zero_length_row)
      (line_project zero_length_row (9 / 2, 13 / 4)) (line_length zero_length_row) = Inr 4508960
   \<and> get_spatiotemporal_ref exact_interpolate zero_length_row =
     Inr (Some \<lparr>pt_0 = (9 / 2, 13 / 4),
                pt_n = (5066549592050807 / 1125899906842624, 3659174708497527 / 1125899906842624),
                t_0 = Timestamp None 0, t_n = Timestamp None 10000000000\<rparr>)"
proof -
  have i: "exact_interpolate (Timestamp None 0) (Timestamp None 10000000000)
             (4508960 / 700000000000000) (1 / 70000000) = Inr 4508960"
    by code_simp
  have g: "(5066549592050807 / 1125899906842624, 3659174708497527 / 1125899906842624)
             = translate (9 / 2, 13 / 4) offset offset"
    by code_simp
  from get_spatiotemporal_ref_degenerate [of zero_length_row
      "[(9 / 2, 13 / 4),
        (5066549592050807 / 1125899906842624, 3659174708497527 / 1125899906842624)]"
      exact_interpolate 4508960 4508960] i g
  show ?thesis
    by (simp add: zero_length_row_def)
qed

text \<open>
  C3, as the claim has it, fails: the two end points below are 5e-9 apart, well within the
  offset, yet the guard does not fire and the range keeps the interpolated times, 2 s to 2 s,
  not the segment's 0 s to 10 s.
\<close>

theorem get_spatiotemporal_ref_near_coincident:
  "spatial_intersection near_coincident_row =
      LineString [(2, 0), (4503599638629495 / 2251799813685248, 0)]
   \<and> \<bar>4503599638629495 / 2251799813685248 - 2\<bar> \<le> (1 / 100000000 :: rat)
   \<and> prev_t near_coincident_row = Timestamp None 0
   \<and> row_t near_coincident_row = Timestamp None 10000000000
   \<and> get_spatiotemporal_ref exact_interpolate near_coincident_row =
       Inr (Some \<lparr>pt_0 = (2, 0), pt_n = (4503599638629495 / 2251799813685248, 0),
                  t_0 = Datetime None 2000000, t_n = Datetime None 2000000\<rparr>)"
  by code_simp

section \<open>Properties of range dissolution\<close>

lemma time_le_True [simp]:
  "time_le a b = Inr True \<longleftrightarrow> aware a = aware b \<and> value_ns a \<le> value_ns b"
  by (simp add: time_le_def)

lemma time_lt_True [simp]:
  "time_lt a b = Inr True \<longleftrightarrow> aware a = aware b \<and> value_ns a < value_ns b"
  by (simp add: time_lt_def)





text \<open>
  C8: on the empty sequence \<open>dissolve_ranges\<close> raises \<^verbatim>\<open>ValueError\<close>; it returns no value.
\<close>

theorem dissolve_ranges_empty:
  "dissolve_ranges [] = Inl ValueError \<and> (\<forall>out. dissolve_ranges [] \<noteq> Inr out)"
  by (simp add: dissolve_ranges_def)

lemma dissolve_loop_all_absent:
  "list_all (\<lambda>r. r = None) ranges \<Longrightarrow> dissolve_loop s ranges = Inr s"
  by (induction ranges arbitrary: s) (auto simp: split_paired_all)

text \<open>
  C10: a non-empty sequence whose entries are all absent dissolves to the one-element list
  holding the absent marker.
\<close>

theorem dissolve_ranges_all_absent:
  assumes "ranges \<noteq> []" and "\<forall>r \<in> set ranges. r = None"
  shows "dissolve_ranges ranges = Inr [None]"
proof -
  from assms(2) have "list_all (\<lambda>r. r = None) ranges"
    by (simp add: list_all_iff)
  then have "dissolve_loop ([], None) ranges = Inr ([], None)"
    by (rule dissolve_loop_all_absent)
  with assms(1) show ?thesis
    by (simp add: dissolve_ranges_def)
qed

theorem dissolve_ranges_all_absent_witness:
  "[None, None] \<noteq> ([] :: SpatioTemporalRange option list)
   \<and> dissolve_ranges [None, None] = Inr [None]"
  using dissolve_ranges_all_absent [of "[None, None]"] by simp








text \<open>On naive times the comparisons never raise, so a sequence is produced.\<close>

lemma dissolve_step_naive:
  assumes "\<not> aware (t_0 r)" and "\<forall>n. opened = Some n \<longrightarrow> \<not> aware (t_n n)"
  shows "\<exists>s'. dissolve_step (dr, opened) (Some r) = Inr s'"
proof (cases opened)
  case None
  then show ?thesis by simp
next
  case (Some n)
  with assms have n: "\<not> aware (t_n n)" by simp
  with assms(1) obtain q where "is_equal (t_0 r) (t_n n) = Inr q"
    by (cases "t_n n") (auto simp: time_sub_def aware_def)
  with n assms(1) Some show ?thesis
    by (simp add: time_gt_def)
qed

lemma dissolve_step_end_time:
  "dissolve_step (dr, opened) (Some r) = Inr (dr', opened') \<Longrightarrow>
     \<exists>n'. opened' = Some n' \<and> t_n n' = t_n r"
  by (cases opened) (auto split: if_splits sum.splits)

lemma dissolve_loop_naive:
  assumes "\<forall>r \<in> set (present rest). \<not> aware (t_0 r) \<and> \<not> aware (t_n r)"
    and "\<forall>n. opened = Some n \<longrightarrow> \<not> aware (t_n n)"
  shows "\<exists>s'. dissolve_loop (dr, opened) rest = Inr s'"
  using assms
proof (induction rest arbitrary: dr opened)
  case Nil
  then show ?case by simp
next
  case (Cons x rest)
  show ?case
  proof (cases x)
    case None
    with Cons show ?thesis by simp
  next
    case (Some r)
    with Cons.prems have "\<not> aware (t_0 r)" "\<not> aware (t_n r)" by auto
    with Cons.prems(2) obtain s1 where
      step: "dissolve_step (dr, opened) (Some r) = Inr s1"
      using dissolve_step_naive by blast
    obtain dr1 opened1 where s1: "s1 = (dr1, opened1)" by (cases s1)
    from step s1 dissolve_step_end_time obtain n1 where
      "opened1 = Some n1" "t_n n1 = t_n r" by blast
    with \<open>\<not> aware (t_n r)\<close> have "\<forall>n. opened1 = Some n \<longrightarrow> \<not> aware (t_n n)" by simp
    moreover from Cons.prems(1) Some have
      "\<forall>r \<in> set (present rest). \<not> aware (t_0 r) \<and> \<not> aware (t_n r)" by simp
    ultimately have "\<exists>s'. dissolve_loop (dr1, opened1) rest = Inr s'"
      by (intro Cons.IH) 
    with step s1 Some show ?thesis by simp
  qed
qed

lemma dissolve_ranges_naive_returns:
  assumes "ranges \<noteq> []"
    and "\<forall>r \<in> set (present ranges). \<not> aware (t_0 r) \<and> \<not> aware (t_n r)"
  shows "\<exists>out. dissolve_ranges ranges = Inr out"
proof -
  from assms(2) obtain s' where "dissolve_loop ([], None) ranges = Inr s'"
    using dissolve_loop_naive by blast
  with assms(1) show ?thesis
    by (cases s') (simp add: dissolve_ranges_def)
qed

section \<open>The point-based mode writes to the input trajectory\<close>

text \<open>
  C4 fails on the code: after the point-based ranges of the sample trajectory are computed,
  its own table has the three columns \<open>t\<close>, \<open>intersects\<close> and \<open>segment\<close> that it did not have
  before.
\<close>

theorem pointbased_mutates_input:
  "snd (determine_time_ranges_pointbased demo_heap demo_traj demo_polygon) =
     [TemporalRange 30000000 60000000]
   \<and> demo_heap (df demo_traj) =
       \<lparr>index = [0, 30000000, 60000000, 90000000],
        geometry = [(2, 0), (0, 0), (1 / 10, 0), (3, 0)],
        columns = [(''speed'', [RatV 0, RatV 2, RatV 1, RatV 3])]\<rparr>
   \<and> fst (determine_time_ranges_pointbased demo_heap demo_traj demo_polygon) (df demo_traj) =
       \<lparr>index = [0, 30000000, 60000000, 90000000],
        geometry = [(2, 0), (0, 0), (1 / 10, 0), (3, 0)],
        columns = [(''speed'', [RatV 0, RatV 2, RatV 1, RatV 3]),
                   (''t'', [TimeV 0, TimeV 30000000, TimeV 60000000, TimeV 90000000]),
                   (''intersects'', [BoolV False, BoolV True, BoolV True, BoolV False]),
                   (''segment'', [IntV 1, IntV 2, IntV 2, IntV 3])]\<rparr>"
  by code_simp

section \<open>Properties of the intersection with a feature\<close>

lemma intersecting_inj [simp]: "intersecting k = intersecting k' \<longleftrightarrow> k = k'"
  by (simp add: intersecting_def)

lemma setitem_scalar_index [simp]: "index (setitem_scalar d name v) = index d"
  by (simp add: setitem_scalar_def setitem_def)

lemma setitem_scalar_lookup:
  "map_of (columns (setitem_scalar d name v)) =
     (map_of (columns d))(name \<mapsto> replicate (length (index d)) v)"
  by (simp add: setitem_scalar_def setitem_def update_conv')

lemma stamp_frame_Cons:
  "stamp_frame ((k, v) # properties) d =
     stamp_frame properties (setitem_scalar d (intersecting k) v)"
  by (simp add: stamp_frame_def)

lemma stamp_frame_index [simp]: "index (stamp_frame properties d) = index d"
  by (induction properties arbitrary: d) (auto simp: stamp_frame_Cons, simp add: stamp_frame_def)

lemma stamp_frame_other:
  "k \<notin> fst ` set properties \<Longrightarrow>
     map_of (columns (stamp_frame properties d)) (intersecting k) =
     map_of (columns d) (intersecting k)"
proof (induction properties arbitrary: d)
  case Nil
  then show ?case by (simp add: stamp_frame_def)
next
  case (Cons p properties)
  obtain k0 v0 where p: "p = (k0, v0)" by (cases p)
  with Cons.prems have "k \<noteq> k0" "k \<notin> fst ` set properties" by auto
  with Cons.IH show ?case
    by (simp add: p stamp_frame_Cons setitem_scalar_lookup)
qed

lemma stamp_frame_lookup:
  "distinct (map fst properties) \<Longrightarrow> (k, v) \<in> set properties \<Longrightarrow>
     map_of (columns (stamp_frame properties d)) (intersecting k) =
     Some (replicate (length (index d)) v)"
proof (induction properties arbitrary: d)
  case Nil
  then show ?case by simp
next
  case (Cons p properties)
  obtain k0 v0 where p: "p = (k0, v0)" by (cases p)
  show ?case
  proof (cases "(k, v) \<in> set properties")
    case True
    with Cons.prems Cons.IH [of "setitem_scalar d (intersecting k0) v0"]
    show ?thesis by (simp add: p stamp_frame_Cons)
  next
    case False
    with Cons.prems p have eq: "k = k0" "v = v0" and "k0 \<notin> fst ` set properties"
      by auto
    then show ?thesis
      by (simp add: p stamp_frame_Cons stamp_frame_other setitem_scalar_lookup)
  qed
qed

lemma stamped_stamp_frame:
  "distinct (map fst properties) \<Longrightarrow> stamped properties (stamp_frame properties d)"
  by (auto simp: stamped_def stamp_frame_lookup)

lemma stamp_properties_frame:
  "stamp_properties properties h clipping =
     h(df clipping := stamp_frame properties (h (df clipping)))"
proof (induction properties arbitrary: h)
  case Nil
  then show ?case by (simp add: stamp_properties_def stamp_frame_def)
next
  case (Cons p properties)
  obtain k0 v0 where p: "p = (k0, v0)" by (cases p)
  have "stamp_properties (p # properties) h clipping =
          stamp_properties properties
            (h(df clipping := setitem_scalar (h (df clipping)) (intersecting k0) v0)) clipping"
    by (simp add: stamp_properties_def p)
  also have "\<dots> = (h(df clipping := setitem_scalar (h (df clipping)) (intersecting k0) v0))
      (df clipping := stamp_frame properties
         ((h(df clipping := setitem_scalar (h (df clipping)) (intersecting k0) v0)) (df clipping)))"
    by (rule Cons.IH)
  also have "\<dots> = h(df clipping := stamp_frame (p # properties) (h (df clipping)))"
    by (simp add: p stamp_frame_Cons)
  finally show ?case .
qed

lemma foldl_stamp_properties:
  assumes "distinct (map fst properties)" and "seg \<in> set clipped"
  shows "stamped properties (foldl (stamp_properties properties) h clipped (df seg))"
  using assms(2)
proof (induction clipped rule: rev_induct)
  case Nil
  then show ?case by simp
next
  case (snoc c clipped)
  show ?case
  proof (cases "df seg = df c")
    case True
    then show ?thesis
      by (simp add: stamp_properties_frame stamped_stamp_frame [OF assms(1)])
  next
    case False
    with snoc.prems have "seg \<in> set clipped" by auto
    with snoc.IH False show ?thesis
      by (simp add: stamp_properties_frame)
  qed
qed

text \<open>
  C9: for a feature with a geometry and a properties dictionary (keys are distinct), every
  segment that \<open>intersection\<close> returns has, for every key \<open>k\<close> with value \<open>v\<close>, the column
  \<open>intersecting_k\<close>, holding \<open>v\<close> in every row.
\<close>

theorem intersection_carries_properties:
  assumes "get_geometry_and_properties_from_feature feature = Inr (geom, properties)"
    and "distinct (map fst properties)"
    and "intersection clip h traj feature pointbased = Inr (h', segments)"
    and "seg \<in> set segments"
    and "(k, v) \<in> set properties"
  shows "map_of (columns (h' (df seg))) (''intersecting_'' @ k) =
           Some (replicate (length (index (h' (df seg)))) v)"
proof -
  from assms(1,3) obtain h1 where
    "clip h traj geom pointbased = Inr (h1, segments)"
    and h': "h' = foldl (stamp_properties properties) h1 segments"
    by (auto simp: intersection_def split: sum.splits)
  from assms(2,4) have "stamped properties (h' (df seg))"
    unfolding h' by (rule foldl_stamp_properties)
  with assms(5) show ?thesis
    by (auto simp: stamped_def intersecting_def)
qed

theorem intersection_carries_properties_witness:
  "\<exists>h' seg. intersection demo_clip demo_heap demo_traj demo_feature False = Inr (h', [seg])
     \<and> map_of (columns (h' (df seg))) ''intersecting_zone'' = Some [IntV 7, IntV 7]"
proof -
  let ?seg = "\<lparr>traj_id = ''a_0'', is_latlon = False, df = 1\<rparr>"
  let ?h = "foldl (stamp_properties [(''name'', StrV ''park''), (''zone'', IntV 7)]) demo_heap [?seg]"
  have g: "get_geometry_and_properties_from_feature demo_feature =
             Inr (demo_polygon, [(''name'', StrV ''park''), (''zone'', IntV 7)])"
    by (simp add: demo_feature_def)
  have i: "intersection demo_clip demo_heap demo_traj demo_feature False = Inr (?h, [?seg])"
    by (simp add: intersection_def g demo_clip_def demo_traj_def)
  have len: "length (index (?h (df ?seg))) = 2"
    by (simp add: stamp_properties_frame demo_heap_def)
  from intersection_carries_properties [OF g _ i, of ?seg "''zone''" "IntV 7"]
  have "map_of (columns (?h (df ?seg))) (''intersecting_'' @ ''zone'') =
          Some (replicate (length (index (?h (df ?seg)))) (IntV 7))"
    by simp
  then have "map_of (columns (?h (df ?seg))) ''intersecting_zone'' = Some [IntV 7, IntV 7]"
    by (simp only: len) (simp add: numeral_2_eq_2 intersecting_def)
  with i show ?thesis by blast
qed

section \<open>Properties of the stop detector\<close>

declare trim_window.simps [simp del]

lemma trim_window_short:
  "length geoms \<le> 2 \<Longrightarrow> trim_window min_duration (geoms, tms) = (geoms, tms)"
  by (subst trim_window.simps) simp

lemma trim_window_lengths:
  "length geoms = length tms \<Longrightarrow> trim_window min_duration (geoms, tms) = (geoms', tms')
     \<Longrightarrow> length geoms' = length tms'"
proof (induction min_duration "(geoms, tms)" arbitrary: geoms tms rule: trim_window.induct)
  case (1 min_duration geoms tms)
  show ?case
  proof (cases "length geoms > 2 \<and> last tms - hd tms \<ge> min_duration")
    case True
    with "1.prems"(2) have "trim_window min_duration (tl geoms, tl tms) = (geoms', tms')"
      by (subst (asm) trim_window.simps) simp
    moreover from "1.prems"(1) have "length (tl geoms) = length (tl tms)" by simp
    ultimately show ?thesis using True "1.hyps" by blast
  next
    case False
    with "1.prems" show ?thesis
      by (subst (asm) trim_window.simps) auto
  qed
qed

lemma window_after_append_lengths:
  assumes "length (segment_geoms s) = length (segment_times s)"
    and "window_after_append min_duration s r = (geoms, tms)"
  shows "length geoms = length tms"
proof (cases "is_stopped s")
  case True
  with assms show ?thesis by (auto simp: window_after_append_def Let_def)
next
  case False
  with assms(2) have "trim_window min_duration
      (segment_geoms s @ [snd r], segment_times s @ [fst r]) = (geoms, tms)"
    by (simp add: window_after_append_def Let_def)
  moreover from assms(1) have
    "length (segment_geoms s @ [snd r]) = length (segment_times s @ [fst r])" by simp
  ultimately show ?thesis by (rule trim_window_lengths [rotated])
qed

lemma process_row_window_ok:
  assumes "window_ok s"
  shows "window_ok (process_row mrr_diagonal traj max_diameter min_duration s r)"
proof -
  obtain geoms tms where w: "window_after_append min_duration s r = (geoms, tms)"
    by (cases "window_after_append min_duration s r")
  from assms have "length (segment_geoms s) = length (segment_times s)"
    by (simp add: window_ok_def)
  then have "length geoms = length tms"
    using w by (rule window_after_append_lengths)
  then show ?thesis
    by (simp add: process_row_def w window_ok_def Let_def)
qed

lemma foldl_process_row_window_ok:
  "window_ok s \<Longrightarrow>
     window_ok (foldl (process_row mrr_diagonal traj max_diameter min_duration) s rows)"
  by (induction rows arbitrary: s) (simp_all add: process_row_window_ok)

lemma initial_state_window_ok: "window_ok initial_state"
  by (simp add: window_ok_def initial_state_def)

text \<open>
  C6: let the window, after the append and the trimming, hold more than one entry, let the
  window not be compact (so \<open>is_stopped\<close> becomes false) and let \<open>previously_stopped\<close> hold.
  Then the window has a second-to-last time, and with \<open>segment_begin\<close> its first and
  \<open>segment_end\<close> its second-to-last time: if \<open>segment_end - segment_begin \<ge> min_duration\<close> the
  stop \<open>(segment_begin, segment_end, traj.id)\<close> is appended and the window is cleared;
  otherwise nothing is appended and the window is kept.
\<close>

theorem process_row_transition:
  assumes "length (segment_geoms s) = length (segment_times s)"
    and "window_after_append min_duration s r = (geoms, tms)"
    and "length geoms > 1"
    and "\<not> mrr_diagonal geoms (is_latlon traj) < max_diameter"
    and "previously_stopped s"
  shows "length tms > 1
         \<and> (let s' = process_row mrr_diagonal traj max_diameter min_duration s r;
                segment_begin = hd tms;
                segment_end = tms ! (length tms - 2)
            in \<not> is_stopped s'
               \<and> (segment_end - segment_begin \<ge> min_duration \<longrightarrow>
                    detected_stops s' = detected_stops s @
                      [TemporalRangeWithTrajId segment_begin segment_end (traj_id traj)]
                    \<and> segment_geoms s' = [] \<and> segment_times s' = [])
               \<and> (\<not> segment_end - segment_begin \<ge> min_duration \<longrightarrow>
                    detected_stops s' = detected_stops s
                    \<and> segment_geoms s' = geoms \<and> segment_times s' = tms))"
proof -
  from assms(1,2) have "length geoms = length tms"
    by (rule window_after_append_lengths)
  with assms(3) have "length tms > 1" by simp
  moreover from assms(2-5) have
    "let s' = process_row mrr_diagonal traj max_diameter min_duration s r;
         segment_begin = hd tms;
         segment_end = tms ! (length tms - 2)
     in \<not> is_stopped s'
        \<and> (segment_end - segment_begin \<ge> min_duration \<longrightarrow>
             detected_stops s' = detected_stops s @
               [TemporalRangeWithTrajId segment_begin segment_end (traj_id traj)]
             \<and> segment_geoms s' = [] \<and> segment_times s' = [])
        \<and> (\<not> segment_end - segment_begin \<ge> min_duration \<longrightarrow>
             detected_stops s' = detected_stops s
             \<and> segment_geoms s' = geoms \<and> segment_times s' = tms)"
    by (simp add: process_row_def Let_def)
  ultimately show ?thesis by simp
qed

theorem process_row_transition_witness:
  "process_row (\<lambda>geoms latlon. 5) demo_traj 1 60000000
      \<lparr>detected_stops = [], segment_geoms = [(0, 0), (0, 0)], segment_times = [0, 70000000],
       is_stopped = True, previously_stopped = True\<rparr> (80000000, (9, 9))
    = \<lparr>detected_stops = [TemporalRangeWithTrajId 0 70000000 ''a''],
       segment_geoms = [], segment_times = [], is_stopped = False, previously_stopped = False\<rparr>"
proof -
  let ?s = "\<lparr>detected_stops = [], segment_geoms = [(0::rat, 0::rat), (0, 0)],
       segment_times = [0, 70000000], is_stopped = True, previously_stopped = True\<rparr>"
  have w: "window_after_append 60000000 ?s (80000000, (9, 9)) =
             ([(0, 0), (0, 0), (9, 9)], [0, 70000000, 80000000])"
    by (simp add: window_after_append_def)
  from process_row_transition [of ?s 60000000 "(80000000, (9, 9))" _ _ "\<lambda>geoms latlon. 5"
      demo_traj 1, OF _ w]
  show ?thesis
    by (simp add: Let_def demo_traj_def process_row_def w)
qed

lemma foldl_process_row_stationary:
  assumes "length rows \<ge> 2"
    and "\<forall>k. 2 \<le> k \<and> k \<le> length rows \<longrightarrow>
           mrr_diagonal (map snd (take k rows)) (is_latlon traj) < max_diameter"
  shows "foldl (process_row mrr_diagonal traj max_diameter min_duration) initial_state rows =
           \<lparr>detected_stops = [], segment_geoms = map snd rows, segment_times = map fst rows,
            is_stopped = True, previously_stopped = True\<rparr>"
  using assms
proof (induction rows rule: rev_induct)
  case Nil
  then show ?case by simp
next
  case (snoc r rows)
  let ?step = "process_row mrr_diagonal traj max_diameter min_duration"
  from snoc.prems(2) have compact:
    "mrr_diagonal (map snd (rows @ [r])) (is_latlon traj) < max_diameter"
    using snoc.prems(1) by (metis le_refl take_all)
  show ?case
  proof (cases "length rows \<ge> 2")
    case True
    have "\<forall>k. 2 \<le> k \<and> k \<le> length rows \<longrightarrow>
           mrr_diagonal (map snd (take k rows)) (is_latlon traj) < max_diameter"
    proof (intro allI impI)
      fix k assume k: "2 \<le> k \<and> k \<le> length rows"
      then have "2 \<le> k \<and> k \<le> length (rows @ [r])" by simp
      with snoc.prems(2) have
        "mrr_diagonal (map snd (take k (rows @ [r]))) (is_latlon traj) < max_diameter"
        by blast
      with k show "mrr_diagonal (map snd (take k rows)) (is_latlon traj) < max_diameter"
        by simp
    qed
    with True snoc.IH have st: "foldl ?step initial_state rows =
           \<lparr>detected_stops = [], segment_geoms = map snd rows, segment_times = map fst rows,
            is_stopped = True, previously_stopped = True\<rparr>" by simp
    have "foldl ?step initial_state (rows @ [r]) = ?step (foldl ?step initial_state rows) r"
      by simp
    also have "\<dots> = ?step \<lparr>detected_stops = [], segment_geoms = map snd rows,
        segment_times = map fst rows, is_stopped = True, previously_stopped = True\<rparr> r"
      by (simp only: st)
    also have "\<dots> = \<lparr>detected_stops = [], segment_geoms = map snd (rows @ [r]),
        segment_times = map fst (rows @ [r]), is_stopped = True, previously_stopped = True\<rparr>"
      using compact True
      by (auto simp: process_row_def window_after_append_def Let_def)
    finally show ?thesis .
  next
    case False
    with snoc.prems(1) have "length rows = 1" by simp
    then obtain q where rows: "rows = [q]"
      by (cases rows) auto
    have first: "?step initial_state q = \<lparr>detected_stops = [], segment_geoms = [snd q],
        segment_times = [fst q], is_stopped = False, previously_stopped = False\<rparr>"
      by (simp add: process_row_def window_after_append_def initial_state_def Let_def
          trim_window_short)
    have "foldl ?step initial_state (rows @ [r]) = ?step (?step initial_state q) r"
      by (simp add: rows)
    also have "\<dots> = ?step \<lparr>detected_stops = [], segment_geoms = [snd q],
        segment_times = [fst q], is_stopped = False, previously_stopped = False\<rparr> r"
      by (simp only: first)
    also have "\<dots> = \<lparr>detected_stops = [], segment_geoms = map snd (rows @ [r]),
        segment_times = map fst (rows @ [r]), is_stopped = True, previously_stopped = True\<rparr>"
      using compact
      by (simp add: rows process_row_def window_after_append_def Let_def trim_window_short)
    finally show ?thesis .
  qed
qed

text \<open>
  C7: after the scan over any rows, if the state is stopped and the span of the window is at
  least \<open>min_duration\<close>, the result is the stops detected so far followed by the one stop from
  the first to the last time of the window. And a trajectory of at least two samples all of
  whose windows are compact, lasting at least \<open>min_duration\<close>, yields exactly one stop, from
  its first to its last time.
\<close>

theorem final_stop_rule:
  "(let s = foldl (process_row mrr_diagonal traj max_diameter min_duration) initial_state rows
    in is_stopped s \<and> last (segment_times s) - hd (segment_times s) \<ge> min_duration \<longrightarrow>
         final_stop traj min_duration s =
           Inr (detected_stops s @
             [TemporalRangeWithTrajId (hd (segment_times s)) (last (segment_times s)) (traj_id traj)]))
   \<and> (length (index (h (df traj))) \<ge> 2
        \<and> length (geometry (h (df traj))) = length (index (h (df traj)))
        \<and> (\<forall>k. 2 \<le> k \<and> k \<le> length (index (h (df traj))) \<longrightarrow>
              mrr_diagonal (take k (geometry (h (df traj)))) (is_latlon traj) < max_diameter)
        \<and> last (index (h (df traj))) - hd (index (h (df traj))) \<ge> min_duration \<longrightarrow>
      process_traj mrr_diagonal h traj max_diameter min_duration =
        Inr [TemporalRangeWithTrajId (hd (index (h (df traj)))) (last (index (h (df traj))))
               (traj_id traj)])"
proof (intro conjI)
  let ?s = "foldl (process_row mrr_diagonal traj max_diameter min_duration) initial_state rows"
  have "window_ok ?s"
    by (rule foldl_process_row_window_ok [OF initial_state_window_ok])
  then have "is_stopped ?s \<longrightarrow> segment_times ?s \<noteq> []"
    by (auto simp: window_ok_def)
  then show "let s = ?s
    in is_stopped s \<and> last (segment_times s) - hd (segment_times s) \<ge> min_duration \<longrightarrow>
         final_stop traj min_duration s =
           Inr (detected_stops s @
             [TemporalRangeWithTrajId (hd (segment_times s)) (last (segment_times s)) (traj_id traj)])"
    by (simp add: final_stop_def Let_def)
next
  let ?d = "h (df traj)"
  show "length (index ?d) \<ge> 2
        \<and> length (geometry ?d) = length (index ?d)
        \<and> (\<forall>k. 2 \<le> k \<and> k \<le> length (index ?d) \<longrightarrow>
              mrr_diagonal (take k (geometry ?d)) (is_latlon traj) < max_diameter)
        \<and> last (index ?d) - hd (index ?d) \<ge> min_duration \<longrightarrow>
      process_traj mrr_diagonal h traj max_diameter min_duration =
        Inr [TemporalRangeWithTrajId (hd (index ?d)) (last (index ?d)) (traj_id traj)]"
  proof
    assume a: "length (index ?d) \<ge> 2
        \<and> length (geometry ?d) = length (index ?d)
        \<and> (\<forall>k. 2 \<le> k \<and> k \<le> length (index ?d) \<longrightarrow>
              mrr_diagonal (take k (geometry ?d)) (is_latlon traj) < max_diameter)
        \<and> last (index ?d) - hd (index ?d) \<ge> min_duration"
    let ?rows = "iterrows ?d"
    from a have len: "length ?rows = length (index ?d)" "length ?rows \<ge> 2"
      by (simp_all add: iterrows_def)
    from a have fst_rows: "map fst ?rows = index ?d" and snd_rows: "map snd ?rows = geometry ?d"
      by (simp_all add: iterrows_def)
    have "\<forall>k. 2 \<le> k \<and> k \<le> length ?rows \<longrightarrow>
           mrr_diagonal (map snd (take k ?rows)) (is_latlon traj) < max_diameter"
      using a len(1) snd_rows by (simp add: take_map [symmetric])
    with len(2) have st:
      "foldl (process_row mrr_diagonal traj max_diameter min_duration) initial_state ?rows =
           \<lparr>detected_stops = [], segment_geoms = map snd ?rows, segment_times = map fst ?rows,
            is_stopped = True, previously_stopped = True\<rparr>"
      by (rule foldl_process_row_stationary)
    from a have "index ?d \<noteq> []" by auto
    with a show "process_traj mrr_diagonal h traj max_diameter min_duration =
        Inr [TemporalRangeWithTrajId (hd (index ?d)) (last (index ?d)) (traj_id traj)]"
      unfolding process_traj_def st by (simp add: final_stop_def fst_rows)
  qed
qed

lemma process_traj_returns:
  "\<exists>stops. process_traj mrr_diagonal h traj max_diameter min_duration = Inr stops"
proof -
  let ?s = "foldl (process_row mrr_diagonal traj max_diameter min_duration) initial_state
              (iterrows (h (df traj)))"
  have "window_ok ?s"
    by (rule foldl_process_row_window_ok [OF initial_state_window_ok])
  then have "is_stopped ?s \<longrightarrow> segment_times ?s \<noteq> []"
    by (auto simp: window_ok_def)
  then show ?thesis
    by (auto simp: process_traj_def final_stop_def)
qed

theorem final_stop_rule_witness:
  "process_traj (\<lambda>geoms latlon. 1 / 2) (\<lambda>a. demo_frame) demo_traj 1 60000000 =
     Inr [TemporalRangeWithTrajId 0 60000000 ''a'']"
  using final_stop_rule [of "\<lambda>geoms latlon. 1 / 2" demo_traj 1 60000000 "[]" "\<lambda>a. demo_frame"]
  by (simp add: demo_frame_def demo_traj_def)

end
